theory Spec2Isabelle
  imports Complex_Main
begin

section \<open>Numbers\<close>

text \<open>
  The calculator computes with the \<^verbatim>\<open>number\<close> type of TypeScript. A value of that type is
  modelled as a real number or one of the three values that are not finite: the two
  infinities and NaN. The operations follow IEEE 754 on the values that are not finite
  (a division by zero gives an infinity or NaN, NaN is absorbing, every comparison with NaN
  is false) and are exact on the finite ones: these operations do not round, overflow or
  underflow, and there is one zero, with a positive sign. The decimal literals
  \<^verbatim>\<open>0.99\<close> and \<^verbatim>\<open>1e-7\<close> stand for the rationals they denote. The rounding of
  binary64 is defined apart, below, and used for the results that rest on it.
\<close>

datatype number = Fin real | PInf | NInf | NaN

fun negative :: "number \<Rightarrow> bool" where
  "negative (Fin x) = (x < 0)"
| "negative PInf = False"
| "negative NInf = True"
| "negative NaN = False"

definition signed_inf :: "bool \<Rightarrow> number" where
  "signed_inf neg = (if neg then NInf else PInf)"

text \<open>Unary minus.\<close>

fun nneg :: "number \<Rightarrow> number" where
  "nneg (Fin x) = Fin (- x)"
| "nneg PInf = NInf"
| "nneg NInf = PInf"
| "nneg NaN = NaN"

text \<open>\<^verbatim>\<open>a + b\<close>: the sum of two opposite infinities is NaN.\<close>

fun nadd :: "number \<Rightarrow> number \<Rightarrow> number" where
  "nadd (Fin x) (Fin y) = Fin (x + y)"
| "nadd NaN b = NaN"
| "nadd a NaN = NaN"
| "nadd PInf NInf = NaN"
| "nadd NInf PInf = NaN"
| "nadd PInf b = PInf"
| "nadd NInf b = NInf"
| "nadd a PInf = PInf"
| "nadd a NInf = NInf"

text \<open>\<^verbatim>\<open>a - b\<close>.\<close>

definition nsub :: "number \<Rightarrow> number \<Rightarrow> number" where
  "nsub a b = nadd a (nneg b)"

text \<open>\<^verbatim>\<open>a * b\<close>: an infinity times zero is NaN.\<close>

fun nmul :: "number \<Rightarrow> number \<Rightarrow> number" where
  "nmul (Fin x) (Fin y) = Fin (x * y)"
| "nmul NaN b = NaN"
| "nmul a NaN = NaN"
| "nmul (Fin x) b = (if x = 0 then NaN else signed_inf ((x < 0) \<noteq> negative b))"
| "nmul a (Fin y) = (if y = 0 then NaN else signed_inf (negative a \<noteq> (y < 0)))"
| "nmul a b = signed_inf (negative a \<noteq> negative b)"

text \<open>
  \<^verbatim>\<open>a / b\<close>: zero by zero and infinity by infinity are NaN, any other finite number by
  zero is an infinity, a finite number by an infinity is zero.
\<close>

fun ndiv :: "number \<Rightarrow> number \<Rightarrow> number" where
  "ndiv (Fin x) (Fin y) =
     (if y = 0 then (if x = 0 then NaN else signed_inf (x < 0)) else Fin (x / y))"
| "ndiv NaN b = NaN"
| "ndiv a NaN = NaN"
| "ndiv (Fin x) b = Fin 0"
| "ndiv a (Fin y) = signed_inf (negative a \<noteq> (y < 0))"
| "ndiv a b = NaN"

text \<open>
  \<^verbatim>\<open>a ** n\<close> for an exponent that is a natural number (the loop counters and the
  constant 12 of the source): the exponent zero gives 1 for every base, NaN included.
\<close>

definition npow :: "number \<Rightarrow> nat \<Rightarrow> number" where
  "npow a n =
     (if n = 0 then Fin 1
      else case a of
        Fin x \<Rightarrow> Fin (x ^ n)
      | PInf \<Rightarrow> PInf
      | NInf \<Rightarrow> (if odd n then NInf else PInf)
      | NaN \<Rightarrow> NaN)"

text \<open>\<^verbatim>\<open>Math.abs(a)\<close>.\<close>

fun nabs :: "number \<Rightarrow> number" where
  "nabs (Fin x) = Fin \<bar>x\<bar>"
| "nabs PInf = PInf"
| "nabs NInf = PInf"
| "nabs NaN = NaN"

text \<open>\<^verbatim>\<open>Number.isFinite(a)\<close>.\<close>

definition isFinite :: "number \<Rightarrow> bool" where
  "isFinite a = (case a of Fin x \<Rightarrow> True | _ \<Rightarrow> False)"

text \<open>\<^verbatim>\<open>a < b\<close> and \<^verbatim>\<open>a <= b\<close>.\<close>

fun nlt :: "number \<Rightarrow> number \<Rightarrow> bool" where
  "nlt (Fin x) (Fin y) = (x < y)"
| "nlt NaN b = False"
| "nlt a NaN = False"
| "nlt PInf b = False"
| "nlt a NInf = False"
| "nlt a b = True"

fun nle :: "number \<Rightarrow> number \<Rightarrow> bool" where
  "nle (Fin x) (Fin y) = (x \<le> y)"
| "nle NaN b = False"
| "nle a NaN = False"
| "nle NInf b = True"
| "nle a PInf = True"
| "nle a b = False"

text \<open>\<^verbatim>\<open>a === b\<close> on numbers: NaN is not equal to itself.\<close>

definition strict_eq :: "number \<Rightarrow> number \<Rightarrow> bool" where
  "strict_eq a b = (a = b \<and> a \<noteq> NaN)"

text \<open>A loop counter or a count of months, as a number.\<close>

definition of_count :: "nat \<Rightarrow> number" where
  "of_count n = Fin (real n)"

section \<open>The calculator\<close>

text \<open>
  \<^verbatim>\<open>interface LoanInput\<close>. The duration \<^verbatim>\<open>months\<close>, a \<^verbatim>\<open>number\<close> in the source, is
  a count of months, a natural number here: the source iterates
  \<^verbatim>\<open>for (let i = 0; i < months; i++)\<close> over it, and the form that calls the calculator
  admits whole numbers from 1 on.
\<close>

record LoanInput =
  principal :: number
  annualRate :: number
  months :: nat
  initialFees :: number
  insuranceCost :: number

text \<open>The result of \<^verbatim>\<open>computeInterestCost\<close>.\<close>

record InterestCost =
  ic_monthlyInstallmentWithoutInsurance :: number
  ic_totalInterests :: number

definition computeInterestCost :: "LoanInput \<Rightarrow> InterestCost" where
  "computeInterestCost inputs =
     (let monthlyRate = ndiv (annualRate inputs) (Fin 12) in
      if strict_eq monthlyRate (Fin 0) then
        \<lparr> ic_monthlyInstallmentWithoutInsurance =
             ndiv (principal inputs) (of_count (months inputs)),
           ic_totalInterests = Fin 0 \<rparr>
      else
        let compoundFactor = npow (nadd (Fin 1) monthlyRate) (months inputs);
            monthlyInstallmentWithoutInsurance =
              ndiv (nmul (nmul (principal inputs) monthlyRate) compoundFactor)
                   (nsub compoundFactor (Fin 1))
        in \<lparr> ic_monthlyInstallmentWithoutInsurance = monthlyInstallmentWithoutInsurance,
             ic_totalInterests =
               nsub (nmul monthlyInstallmentWithoutInsurance (of_count (months inputs)))
                    (principal inputs) \<rparr>)"

text \<open>
  The argument of \<^verbatim>\<open>computeEffectiveAnnualRate\<close>, an object with the four fields
  \<^verbatim>\<open>months\<close>, \<^verbatim>\<open>principal\<close>, \<^verbatim>\<open>initialFees\<close> and \<^verbatim>\<open>totalCost\<close>.
\<close>

record RateInput =
  ri_months :: nat
  ri_principal :: number
  ri_initialFees :: number
  ri_totalCost :: number

text \<open>
  Its result, \<^verbatim>\<open>{ converged: true; rate: number } | { converged: false; rate?: number }\<close>:
  the field \<^verbatim>\<open>rate\<close> is absent from the object the \<^verbatim>\<open>catch\<close> branch returns.
\<close>

record RateResult =
  converged :: bool
  rate :: "number option"

definition totalReimbursed :: "RateInput \<Rightarrow> number" where
  "totalReimbursed inp = nadd (ri_totalCost inp) (ri_principal inp)"

definition averageInstallment :: "RateInput \<Rightarrow> number" where
  "averageInstallment inp =
     ndiv (nsub (totalReimbursed inp) (ri_initialFees inp)) (of_count (ri_months inp))"

text \<open>The body of the loop of \<^verbatim>\<open>objectiveFunction\<close>, at the counter \<open>i\<close>.\<close>

definition objectiveStep ::
  "number \<Rightarrow> number \<Rightarrow> nat \<Rightarrow> number \<times> number \<Rightarrow> number \<times> number" where
  "objectiveStep avg x i acc =
     (case acc of (val, derivative) \<Rightarrow>
        let pow = i + 1 in
        (nadd val (nmul avg (npow x pow)),
         nadd derivative (nmul (of_count pow) (npow x i))))"

text \<open>
  \<^verbatim>\<open>objectiveFunction\<close>, the closure that \<^verbatim>\<open>computeEffectiveAnnualRate\<close> hands to
  \<^verbatim>\<open>newton\<close>: the value of the cash-flow polynomial and of its derivative.
\<close>

definition objectiveFunction :: "RateInput \<Rightarrow> number \<Rightarrow> number \<times> number" where
  "objectiveFunction inp x =
     (case fold (objectiveStep (averageInstallment inp) x) [0..<ri_months inp] (Fin 0, Fin 0) of
        (val, derivative) \<Rightarrow>
          (nadd val (nsub (ri_initialFees inp) (ri_principal inp)),
           nmul derivative (averageInstallment inp)))"

text \<open>The two errors \<^verbatim>\<open>newton\<close> throws.\<close>

datatype newton_error = DerivativeTooSmall | MaxIterationsReached

text \<open>
  The loop of \<^verbatim>\<open>newton\<close>, from the counter \<open>i\<close> and the current \<open>x\<close>. A thrown error is
  the value \<open>Inl\<close>.
\<close>

function newton_from ::
  "(number \<Rightarrow> number \<times> number) \<Rightarrow> number \<Rightarrow> nat \<Rightarrow> nat \<Rightarrow> number \<Rightarrow> newton_error + number"
  where
  "newton_from f epsilon maxIterations i x =
     (if i < maxIterations then
        (case f x of (val, derivative) \<Rightarrow>
           if nlt (nabs val) epsilon then Inr x
           else if nlt (nabs derivative) epsilon then Inl DerivativeTooSmall
           else newton_from f epsilon maxIterations (Suc i) (nsub x (ndiv val derivative)))
      else Inl MaxIterationsReached)"
  by pat_completeness auto
termination
  by (relation "measure (\<lambda>(f, epsilon, maxIterations, i, x). maxIterations - i)") auto

declare newton_from.simps [simp del]

definition newton ::
  "(number \<Rightarrow> number \<times> number) \<Rightarrow> number \<Rightarrow> number \<Rightarrow> nat \<Rightarrow> newton_error + number" where
  "newton f x0 epsilon maxIterations = newton_from f epsilon maxIterations 0 x0"

text \<open>The default values of the parameters \<^verbatim>\<open>epsilon\<close> and \<^verbatim>\<open>maxIterations\<close>.\<close>

definition default_epsilon :: number where
  "default_epsilon = Fin (1 / 10 ^ 7)"

definition default_maxIterations :: nat where
  "default_maxIterations = 100"

text \<open>
  \<^verbatim>\<open>computeEffectiveAnnualRate\<close>: the \<^verbatim>\<open>try\<close> block catches both errors of
  \<^verbatim>\<open>newton\<close> (the message it logs is not modelled).
\<close>

definition computeEffectiveAnnualRate :: "RateInput \<Rightarrow> RateResult" where
  "computeEffectiveAnnualRate inp =
     (case newton (objectiveFunction inp) (Fin (99 / 100)) default_epsilon default_maxIterations of
        Inr x \<Rightarrow> \<lparr> converged = True, rate = Some (nsub (npow (ndiv (Fin 1) x) 12) (Fin 1)) \<rparr>
      | Inl err \<Rightarrow> \<lparr> converged = False, rate = None \<rparr>)"

text \<open>\<^verbatim>\<open>a ?? b\<close> on a field that may be absent.\<close>

definition nullish :: "number option \<Rightarrow> number \<Rightarrow> number" where
  "nullish a b = (case a of None \<Rightarrow> b | Some v \<Rightarrow> v)"

text \<open>\<^verbatim>\<open>interface LoanOutput\<close>.\<close>

record LoanOutput =
  monthlyInstallmentWithoutInsurance :: number
  fullInstallment :: number
  totalInterests :: number
  totalCostWithoutInsurance :: number
  totalCost :: number
  effectiveAnnualRate :: number
  effectiveInsuranceAnnualRate :: number

text \<open>The arguments of the two calls of \<^verbatim>\<open>computeEffectiveAnnualRate\<close>.\<close>

definition allInRateInput :: "LoanInput \<Rightarrow> RateInput" where
  "allInRateInput inputs =
     \<lparr> ri_months = months inputs,
       ri_principal = principal inputs,
       ri_initialFees = initialFees inputs,
       ri_totalCost =
         nadd (nadd (initialFees inputs) (ic_totalInterests (computeInterestCost inputs)))
              (insuranceCost inputs) \<rparr>"

definition withoutInsuranceRateInput :: "LoanInput \<Rightarrow> RateInput" where
  "withoutInsuranceRateInput inputs =
     \<lparr> ri_months = months inputs,
       ri_principal = principal inputs,
       ri_initialFees = initialFees inputs,
       ri_totalCost = nadd (initialFees inputs) (ic_totalInterests (computeInterestCost inputs)) \<rparr>"

definition computeLoanOutput :: "LoanInput \<Rightarrow> LoanOutput" where
  "computeLoanOutput inputs =
     (let ic = computeInterestCost inputs;
          totalInterests' = ic_totalInterests ic;
          totalCost' = nadd (nadd (initialFees inputs) (insuranceCost inputs)) totalInterests';
          fullInstallment' =
            ndiv (nadd (nadd (principal inputs) totalInterests') (insuranceCost inputs))
                 (of_count (months inputs));
          effectiveAnnualRate' = rate (computeEffectiveAnnualRate (allInRateInput inputs));
          effectiveInsuranceAnnualRate' =
            rate (computeEffectiveAnnualRate (withoutInsuranceRateInput inputs))
      in \<lparr> monthlyInstallmentWithoutInsurance = ic_monthlyInstallmentWithoutInsurance ic,
           fullInstallment = fullInstallment',
           totalInterests = totalInterests',
           totalCostWithoutInsurance = nadd (initialFees inputs) totalInterests',
           totalCost = totalCost',
           effectiveAnnualRate = nullish effectiveAnnualRate' NaN,
           effectiveInsuranceAnnualRate =
             nsub (nullish effectiveAnnualRate' NaN) (nullish effectiveInsuranceAnnualRate' NaN) \<rparr>)"

section \<open>The Newton-Raphson iterates\<close>

text \<open>
  The sequence \<open>x\<^sub>0, x\<^sub>1, \<dots>\<close> of Newton-Raphson for a function \<open>f\<close> that returns the
  value and the derivative: \<open>x\<^sub>k\<^sub>+\<^sub>1 = x\<^sub>k - g(x\<^sub>k) / g'(x\<^sub>k)\<close>. It is the mathematical
  sequence, defined without the tests of the loop, against which the loop is compared.
\<close>

fun newton_seq :: "(number \<Rightarrow> number \<times> number) \<Rightarrow> number \<Rightarrow> nat \<Rightarrow> number" where
  "newton_seq f x0 0 = x0"
| "newton_seq f x0 (Suc k) =
     nsub (newton_seq f x0 k)
          (ndiv (fst (f (newton_seq f x0 k))) (snd (f (newton_seq f x0 k))))"

text \<open>\<open>|g(x)| < \<epsilon>\<close> and \<open>|g'(x)| < \<epsilon>\<close> at the point \<open>x\<close>.\<close>

definition value_small :: "(number \<Rightarrow> number \<times> number) \<Rightarrow> number \<Rightarrow> number \<Rightarrow> bool" where
  "value_small f epsilon x = nlt (nabs (fst (f x))) epsilon"

definition derivative_small :: "(number \<Rightarrow> number \<times> number) \<Rightarrow> number \<Rightarrow> number \<Rightarrow> bool" where
  "derivative_small f epsilon x = nlt (nabs (snd (f x))) epsilon"

text \<open>
  The solver of the effective rate: its objective function \<open>g\<close> with the derivative, its
  \<open>k\<close>-th iterate from \<open>x\<^sub>0 = 0.99\<close>, and the two tests at that iterate with
  \<open>\<epsilon> = 10\<^sup>-\<^sup>7\<close>.
\<close>

definition iterate :: "RateInput \<Rightarrow> nat \<Rightarrow> number" where
  "iterate inp k = newton_seq (objectiveFunction inp) (Fin (99 / 100)) k"

definition accepted_at :: "RateInput \<Rightarrow> nat \<Rightarrow> bool" where
  "accepted_at inp k = value_small (objectiveFunction inp) default_epsilon (iterate inp k)"

definition flat_at :: "RateInput \<Rightarrow> nat \<Rightarrow> bool" where
  "flat_at inp k = derivative_small (objectiveFunction inp) default_epsilon (iterate inp k)"

text \<open>
  The loop arrives at iteration \<open>k\<close>: no earlier iterate was accepted and at none was the
  derivative too small.
\<close>

definition arrives_at :: "RateInput \<Rightarrow> nat \<Rightarrow> bool" where
  "arrives_at inp k = (\<forall>j \<in> {..<k}. \<not> accepted_at inp j \<and> \<not> flat_at inp j)"

text \<open>The value the \<^verbatim>\<open>catch\<close> branch returns.\<close>

definition nonConverged :: RateResult where
  "nonConverged = \<lparr> converged = False, rate = None \<rparr>"

section \<open>Rounding to binary64\<close>

text \<open>
  In the program every operation returns the binary64 number that is nearest to the exact
  result, the even one of two that are equally near. A binary64 number is zero or
  \<open>m * 2\<^sup>e\<close> for integers with \<open>|m| < 2\<^sup>5\<^sup>3\<close> and \<open>-1074 \<le> e \<le> 971\<close>.
\<close>

text \<open>The nearest integer, the even one at a tie.\<close>

definition round_half_even :: "real \<Rightarrow> int" where
  "round_half_even z =
     (let n = \<lfloor>z\<rfloor>; d = z - of_int n in
      if d < 1 / 2 then n else if 1 / 2 < d then n + 1 else if even n then n else n + 1)"

text \<open>\<open>2\<^sup>e\<close> for an integer \<open>e\<close>.\<close>

definition two_to :: "int \<Rightarrow> real" where
  "two_to e = (if 0 \<le> e then 2 ^ nat e else 1 / 2 ^ nat (- e))"

text \<open>
  The rounding of a real number: \<open>e\<close> is the exponent of the last of the 53 bits, at least
  \<open>-1074\<close>, and a result from \<open>2\<^sup>1\<^sup>0\<^sup>2\<^sup>4\<close> on is an infinity.
\<close>

definition binary64 :: "real \<Rightarrow> number" where
  "binary64 x =
     (if x = 0 then Fin 0
      else
        let e = max (\<lfloor>log 2 \<bar>x\<bar>\<rfloor> - 52) (- 1074);
            y = of_int (round_half_even (x / two_to e)) * two_to e
        in if two_to 1024 \<le> \<bar>y\<bar> then signed_inf (x < 0) else Fin y)"

text \<open>The rounding of the result of an operation; an infinity and NaN stay.\<close>

definition rounded :: "number \<Rightarrow> number" where
  "rounded a = (case a of Fin x \<Rightarrow> binary64 x | _ \<Rightarrow> a)"

text \<open>
  \<^verbatim>\<open>computeInterestCost\<close> with the result of every operation rounded. The power is rounded
  once, from the exact power; in the evaluations below the power is a binary64 number: the
  base is 1, the exponent is 1, or the square of the base has no more than 53 bits.
\<close>

definition computeInterestCost_binary64 :: "LoanInput \<Rightarrow> InterestCost" where
  "computeInterestCost_binary64 inputs =
     (let monthlyRate = rounded (ndiv (annualRate inputs) (Fin 12)) in
      if strict_eq monthlyRate (Fin 0) then
        \<lparr> ic_monthlyInstallmentWithoutInsurance =
             rounded (ndiv (principal inputs) (of_count (months inputs))),
           ic_totalInterests = Fin 0 \<rparr>
      else
        let compoundFactor = rounded (npow (rounded (nadd (Fin 1) monthlyRate)) (months inputs));
            monthlyInstallmentWithoutInsurance =
              rounded (ndiv (rounded (nmul (rounded (nmul (principal inputs) monthlyRate))
                                           compoundFactor))
                            (rounded (nsub compoundFactor (Fin 1))))
        in \<lparr> ic_monthlyInstallmentWithoutInsurance = monthlyInstallmentWithoutInsurance,
             ic_totalInterests =
               rounded (nsub (rounded (nmul monthlyInstallmentWithoutInsurance
                                            (of_count (months inputs))))
                             (principal inputs)) \<rparr>)"

text \<open>
  The fields \<^verbatim>\<open>totalCost\<close> and \<^verbatim>\<open>totalCostWithoutInsurance\<close> of
  \<^verbatim>\<open>computeLoanOutput\<close>, \<^verbatim>\<open>inputs.initialFees + inputs.insuranceCost + totalInterests\<close>
  and \<^verbatim>\<open>inputs.initialFees + totalInterests\<close>, with the result of every operation rounded.
\<close>

definition totalCost_binary64 :: "LoanInput \<Rightarrow> number" where
  "totalCost_binary64 inputs =
     rounded (nadd (rounded (nadd (initialFees inputs) (insuranceCost inputs)))
                   (ic_totalInterests (computeInterestCost_binary64 inputs)))"

definition totalCostWithoutInsurance_binary64 :: "LoanInput \<Rightarrow> number" where
  "totalCostWithoutInsurance_binary64 inputs =
     rounded (nadd (initialFees inputs) (ic_totalInterests (computeInterestCost_binary64 inputs)))"

section \<open>Inputs of the examples\<close>

text \<open>One month, 100 borrowed, no fees, a total cost of 1: the solver converges at \<open>x\<^sub>1\<close>.\<close>

definition convergingRateInput :: RateInput where
  "convergingRateInput =
     \<lparr> ri_months = 1, ri_principal = Fin 100, ri_initialFees = Fin 0, ri_totalCost = Fin 1 \<rparr>"

text \<open>Nothing borrowed, fees of 1 that are the whole cost: the average installment is zero.\<close>

definition flatRateInput :: RateInput where
  "flatRateInput =
     \<lparr> ri_months = 1, ri_principal = Fin 0, ri_initialFees = Fin 1, ri_totalCost = Fin 1 \<rparr>"

text \<open>
  Two months, nothing borrowed, fees of 69103 and a total cost of 89103: the average
  installment is 10000, the objective function \<open>10000 (x + x\<^sup>2) + 69103\<close> has no root, and
  the iterates go from 0.99 to -1.99 and back.
\<close>

definition cyclingRateInput :: RateInput where
  "cyclingRateInput =
     \<lparr> ri_months = 2, ri_principal = Fin 0, ri_initialFees = Fin 69103,
       ri_totalCost = Fin 89103 \<rparr>"

text \<open>Scenario 2 of the specification: 12000 over 12 months at the rate zero.\<close>

definition zeroRateLoan :: LoanInput where
  "zeroRateLoan =
     \<lparr> principal = Fin 12000, annualRate = Fin 0, months = 12, initialFees = Fin 0,
       insuranceCost = Fin 0 \<rparr>"

text \<open>Nothing borrowed and fees of 1, at the rate zero: both solves of the rate fail.\<close>

definition failingLoan :: LoanInput where
  "failingLoan =
     \<lparr> principal = Fin 0, annualRate = Fin 0, months = 1, initialFees = Fin 1,
       insuranceCost = Fin 0 \<rparr>"

text \<open>
  Nothing borrowed over two months at the rate zero, with fees of 69103 and an insurance of
  20000: the solve with the insurance is the one of \<open>cyclingRateInput\<close>.
\<close>

definition cyclingLoan :: LoanInput where
  "cyclingLoan =
     \<lparr> principal = Fin 0, annualRate = Fin 0, months = 2, initialFees = Fin 69103,
       insuranceCost = Fin 20000 \<rparr>"

text \<open>100 over one month at the rate zero, with an insurance of 1 and without.\<close>

definition insuredLoan :: LoanInput where
  "insuredLoan =
     \<lparr> principal = Fin 100, annualRate = Fin 0, months = 1, initialFees = Fin 0,
       insuranceCost = Fin 1 \<rparr>"

definition plainLoan :: LoanInput where
  "plainLoan =
     \<lparr> principal = Fin 100, annualRate = Fin 0, months = 1, initialFees = Fin 0,
       insuranceCost = Fin 0 \<rparr>"

text \<open>100 over one month at 12 percent a year, with an insurance of 1.\<close>

definition interestLoan :: LoanInput where
  "interestLoan =
     \<lparr> principal = Fin 100, annualRate = Fin (12 / 100), months = 1, initialFees = Fin 0,
       insuranceCost = Fin 1 \<rparr>"

text \<open>Fees as high as the principal, no insurance.\<close>

definition feesEqualPrincipalLoan :: LoanInput where
  "feesEqualPrincipalLoan =
     \<lparr> principal = Fin 100, annualRate = Fin 0, months = 1, initialFees = Fin 100,
       insuranceCost = Fin 0 \<rparr>"

text \<open>
  An average installment of zero with fees that differ from the principal by \<open>2\<^sup>-\<^sup>2\<^sup>5\<close>, which
  is less than \<open>10\<^sup>-\<^sup>7\<close>.
\<close>

definition smallGapRateInput :: RateInput where
  "smallGapRateInput =
     \<lparr> ri_months = 1, ri_principal = Fin 0, ri_initialFees = Fin (1 / 2 ^ 25),
       ri_totalCost = Fin (1 / 2 ^ 25) \<rparr>"

text \<open>1000 over two months at 12 percent a year.\<close>

definition twoMonthLoan :: LoanInput where
  "twoMonthLoan =
     \<lparr> principal = Fin 1000, annualRate = Fin (12 / 100), months = 2, initialFees = Fin 10,
       insuranceCost = Fin 5 \<rparr>"


text \<open>
  1000 over 12 months at the annual rate \<open>3 * 2\<^sup>-\<^sup>5\<^sup>8\<close>, about \<open>10\<^sup>-\<^sup>1\<^sup>7\<close>: the monthly rate is
  \<open>2\<^sup>-\<^sup>6\<^sup>0\<close>.
\<close>

definition tinyRateLoan :: LoanInput where
  "tinyRateLoan =
     \<lparr> principal = Fin 1000, annualRate = Fin (3 / 2 ^ 58), months = 12, initialFees = Fin 0,
       insuranceCost = Fin 0 \<rparr>"

text \<open>
  Nothing borrowed, at that annual rate, with an insurance of 1.
\<close>

definition nothingBorrowedTinyRateLoan :: LoanInput where
  "nothingBorrowedTinyRateLoan =
     \<lparr> principal = Fin 0, annualRate = Fin (3 / 2 ^ 58), months = 12, initialFees = Fin 0,
       insuranceCost = Fin 1 \<rparr>"



section \<open>The value of an annuity\<close>


section \<open>Arithmetic of the numbers\<close>

lemma nadd_NaN_right [simp]: "nadd a NaN = NaN"
  by (cases a) simp_all

lemma nmul_NaN_right [simp]: "nmul a NaN = NaN"
  by (cases a) simp_all

lemma ndiv_NaN_right [simp]: "ndiv a NaN = NaN"
  by (cases a) simp_all

lemma nlt_NaN_right [simp]: "\<not> nlt a NaN"
  by (cases a) simp_all

lemma nadd_zero_right: "nadd a (Fin 0) = a"
  by (cases a) simp_all

lemma nsub_NaN_left: "nsub NaN b = NaN"
  by (simp add: nsub_def)

lemma nsub_NaN_right: "nsub a NaN = NaN"
  by (simp add: nsub_def)

lemma nsub_Fin: "nsub (Fin x) (Fin y) = Fin (x - y)"
  by (simp add: nsub_def)

lemma npow_Fin: "npow (Fin x) n = Fin (x ^ n)"
  by (simp add: npow_def)

lemma isFinite_iff: "isFinite a \<longleftrightarrow> (\<exists>x. a = Fin x)"
  by (cases a) (simp_all add: isFinite_def)

lemma nadd_not_finite: "\<not> isFinite b \<Longrightarrow> \<not> isFinite (nadd a b)"
  by (cases a; cases b) (simp_all add: isFinite_def)

lemma nadd_not_finite_left: "\<not> isFinite a \<Longrightarrow> \<not> isFinite (nadd a b)"
  by (cases a; cases b) (simp_all add: isFinite_def)

lemma nmul_not_finite: "\<not> isFinite b \<Longrightarrow> \<not> isFinite (nmul a b)"
  by (cases a; cases b) (simp_all add: isFinite_def signed_inf_def)

lemma npow_not_finite: "\<not> isFinite x \<Longrightarrow> n \<noteq> 0 \<Longrightarrow> \<not> isFinite (npow x n)"
  by (cases x) (simp_all add: isFinite_def npow_def)

lemma not_finite_not_small: "\<not> isFinite a \<Longrightarrow> \<not> nlt (nabs a) epsilon"
  by (cases a; cases epsilon) (simp_all add: isFinite_def)

section \<open>Arithmetic of the rounding\<close>

lemma two_to_powr: "two_to e = 2 powr (real_of_int e)"
  by (simp add: two_to_def powr_int)

lemma two_to_pos: "0 < two_to e"
  by (simp add: two_to_powr)

lemma two_to_add: "two_to (a + b) = two_to a * two_to b"
  by (simp add: two_to_powr powr_add)

lemma two_to_mono: "a \<le> b \<Longrightarrow> two_to a \<le> two_to b"
  by (simp add: two_to_powr)

lemma floor_log2:
  assumes "two_to k \<le> x" and "x < two_to (k + 1)"
  shows "\<lfloor>log 2 x\<rfloor> = k"
proof -
  have "0 < x" using assms(1) two_to_pos [of k] by simp
  then show ?thesis
    using assms floor_log_eq_powr_iff [of x 2 k] by (simp add: two_to_powr)
qed

lemma round_half_even_near:
  assumes "0 \<le> d" and "d < 1 / 2"
  shows "round_half_even (of_int n + d) = n"
proof -
  have "\<lfloor>of_int n + d\<rfloor> = n"
    using assms by (intro floor_unique) auto
  then show ?thesis
    using assms by (simp add: round_half_even_def Let_def)
qed

lemma round_half_even_int: "round_half_even (of_int m) = m"
  using round_half_even_near [of 0 m] by simp

text \<open>A number with a significand of 53 bits and an exponent in the range is not changed.\<close>

lemma binary64_representable:
  assumes "2 ^ 52 \<le> \<bar>m\<bar>" and "\<bar>m\<bar> < 2 ^ 53" and "- 1074 \<le> k" and "k \<le> 971"
  shows "binary64 (of_int m * two_to k) = Fin (of_int m * two_to k)"
proof -
  let ?x = "of_int m * two_to k :: real"
  have m0: "m \<noteq> 0" using assms(1) by auto
  then have x0: "?x \<noteq> 0" using two_to_pos [of k] by simp
  have ax: "\<bar>?x\<bar> = of_int \<bar>m\<bar> * two_to k"
    using two_to_pos [of k] by (simp add: abs_mult)
  have "(2::real) ^ 52 \<le> of_int \<bar>m\<bar>"
    using assms(1) by (metis of_int_le_iff of_int_numeral of_int_power)
  then have lo: "two_to (52 + k) \<le> \<bar>?x\<bar>"
    using two_to_pos [of k] by (simp add: ax two_to_add) (simp add: two_to_def)
  have "of_int \<bar>m\<bar> < (2::real) ^ 53"
    using assms(2) by (metis of_int_less_iff of_int_numeral of_int_power)
  then have hi: "\<bar>?x\<bar> < two_to (52 + k + 1)"
    using two_to_pos [of k] two_to_add [of 53 k] by (simp add: ax add.commute) (simp add: two_to_def)
  have e: "\<lfloor>log 2 \<bar>?x\<bar>\<rfloor> = 52 + k"
    using lo hi by (rule floor_log2)
  have ex: "max (\<lfloor>log 2 \<bar>?x\<bar>\<rfloor> - 52) (- 1074) = k"
    using assms(3) by (simp add: e)
  have q: "?x / two_to k = of_int m"
    using two_to_pos [of k] by simp
  have "\<bar>?x\<bar> < two_to 53 * two_to k"
    using hi two_to_add [of 53 k] by (simp add: add.commute)
  also have "\<dots> \<le> two_to 53 * two_to 971"
    using two_to_mono [OF assms(4)] two_to_pos [of 53] by (intro mult_left_mono) auto
  also have "\<dots> = two_to 1024"
    using two_to_add [of 53 971] by simp
  finally have fin: "\<not> two_to 1024 \<le> \<bar>?x\<bar>" by simp
  show ?thesis
    unfolding binary64_def Let_def ex q round_half_even_int
    using x0 fin by simp
qed

lemma binary64_fixed:
  assumes "x = of_int m * two_to k"
    and "2 ^ 52 \<le> \<bar>m\<bar>" and "\<bar>m\<bar> < 2 ^ 53" and "- 1074 \<le> k" and "k \<le> 971"
  shows "binary64 x = Fin x"
  unfolding assms(1) using assms(2-) by (rule binary64_representable)

text \<open>An addend below \<open>2\<^sup>-\<^sup>5\<^sup>3\<close> is lost in a sum with 1.\<close>

lemma binary64_absorbed:
  assumes "0 \<le> t" and "t < 1 / 2 ^ 53"
  shows "binary64 (1 + t) = Fin 1"
proof -
  have x0: "1 + t \<noteq> 0" using assms by simp
  have "two_to 0 \<le> \<bar>1 + t\<bar>" "\<bar>1 + t\<bar> < two_to (0 + 1)"
    using assms by (simp_all add: two_to_def)
  then have e: "\<lfloor>log 2 \<bar>1 + t\<bar>\<rfloor> = 0"
    by (rule floor_log2)
  have ex: "max (\<lfloor>log 2 \<bar>1 + t\<bar>\<rfloor> - 52) (- 1074) = - 52"
    by (simp add: e)
  have scale: "two_to (- 52) * 2 ^ 52 = 1"
    by (simp add: two_to_def)
  then have q: "(1 + t) / two_to (- 52) = of_int (2 ^ 52) + t * 2 ^ 52"
    using two_to_pos [of "- 52"] by (simp add: field_simps)
  have small: "0 \<le> t * 2 ^ 52" "t * 2 ^ 52 < 1 / 2"
    using assms by (simp_all add: field_simps)
  have r: "round_half_even ((1 + t) / two_to (- 52)) = 2 ^ 52"
    unfolding q using small by (rule round_half_even_near)
  have y: "of_int (round_half_even ((1 + t) / two_to (- 52))) * two_to (- 52) = 1"
    unfolding r using scale by (simp add: mult.commute)
  have "\<not> two_to 1024 \<le> \<bar>1::real\<bar>"
    by (simp add: two_to_def)
  then show ?thesis
    unfolding binary64_def Let_def ex y
    using x0 by simp
qed

lemma binary64_one: "binary64 1 = Fin 1"
  using binary64_absorbed [of 0] by simp

lemma binary64_zero: "binary64 0 = Fin 0"
  by (simp add: binary64_def)

lemma binary64_tiny_rate: "binary64 (1 / 2 ^ 60) = Fin (1 / 2 ^ 60)"
  by (rule binary64_fixed [where m = "2 ^ 52" and k = "- 112"]) (simp_all add: two_to_def)

lemma binary64_annual_rate: "binary64 (3 / 2 ^ 58) = Fin (3 / 2 ^ 58)"
  by (rule binary64_fixed [where m = "3 * 2 ^ 51" and k = "- 109"]) (simp_all add: two_to_def)

lemma binary64_principal: "binary64 1000 = Fin 1000"
  by (rule binary64_fixed [where m = "1000 * 2 ^ 43" and k = "- 43"]) (simp_all add: two_to_def)

lemma binary64_tiny_product: "binary64 (1000 / 2 ^ 60) = Fin (1000 / 2 ^ 60)"
  by (rule binary64_fixed [where m = "1000 * 2 ^ 43" and k = "- 103"]) (simp_all add: two_to_def)

lemma binary64_rate_absorbed: "binary64 (1 + 1 / 2 ^ 60) = Fin 1"
  by (rule binary64_absorbed) simp_all






subsection \<open>The amortization of four loans, with rounding\<close>

text \<open>The rate that the sum with 1 absorbs.\<close>

lemma tiny_rate_cost:
  "computeInterestCost_binary64 tinyRateLoan
     = \<lparr> ic_monthlyInstallmentWithoutInsurance = PInf, ic_totalInterests = PInf \<rparr>"
proof -
  have rate: "rounded (ndiv (Fin (3 / 2 ^ 58)) (Fin 12)) = Fin (1 / 2 ^ 60)"
    using binary64_tiny_rate by (simp add: rounded_def)
  have factor: "rounded (npow (rounded (nadd (Fin 1) (Fin (1 / 2 ^ 60)))) 12) = Fin 1"
    using binary64_rate_absorbed binary64_one by (simp add: rounded_def npow_Fin)
  have numerator: "rounded (nmul (rounded (nmul (Fin 1000) (Fin (1 / 2 ^ 60)))) (Fin 1))
      = Fin (1000 / 2 ^ 60)"
    using binary64_tiny_product by (simp add: rounded_def)
  have denominator: "rounded (nsub (Fin 1) (Fin 1)) = Fin 0"
    using binary64_zero by (simp add: rounded_def nsub_Fin)
  have quotient: "rounded (ndiv (Fin (1000 / 2 ^ 60)) (Fin 0)) = PInf"
    by (simp add: rounded_def signed_inf_def)
  have interests: "rounded (nsub (rounded (nmul PInf (of_count 12))) (Fin 1000)) = PInf"
    by (simp add: rounded_def signed_inf_def of_count_def nsub_def)
  show ?thesis
    unfolding computeInterestCost_binary64_def tinyRateLoan_def
    by (simp only: LoanInput.simps Let_def rate factor numerator denominator quotient interests
        strict_eq_def) simp
qed

lemma nothing_borrowed_cost:
  "computeInterestCost_binary64 nothingBorrowedTinyRateLoan
     = \<lparr> ic_monthlyInstallmentWithoutInsurance = NaN, ic_totalInterests = NaN \<rparr>"
proof -
  have rate: "rounded (ndiv (Fin (3 / 2 ^ 58)) (Fin 12)) = Fin (1 / 2 ^ 60)"
    using binary64_tiny_rate by (simp add: rounded_def)
  have factor: "rounded (npow (rounded (nadd (Fin 1) (Fin (1 / 2 ^ 60)))) 12) = Fin 1"
    using binary64_rate_absorbed binary64_one by (simp add: rounded_def npow_Fin)
  have numerator: "rounded (nmul (rounded (nmul (Fin 0) (Fin (1 / 2 ^ 60)))) (Fin 1)) = Fin 0"
    using binary64_zero by (simp add: rounded_def)
  have denominator: "rounded (nsub (Fin 1) (Fin 1)) = Fin 0"
    using binary64_zero by (simp add: rounded_def nsub_Fin)
  have quotient: "rounded (ndiv (Fin 0) (Fin 0)) = NaN"
    by (simp add: rounded_def)
  have interests: "rounded (nsub (rounded (nmul NaN (of_count 12))) (Fin 0)) = NaN"
    by (simp add: rounded_def of_count_def nsub_def)
  show ?thesis
    unfolding computeInterestCost_binary64_def nothingBorrowedTinyRateLoan_def
    by (simp only: LoanInput.simps Let_def rate factor numerator denominator quotient interests
        strict_eq_def) simp
qed

























section \<open>The solver of the effective rate\<close>

subsection \<open>The loop of newton against the Newton-Raphson sequence\<close>

lemma newton_from_step:
  "newton_from f epsilon n i x =
     (if i < n then
        if value_small f epsilon x then Inr x
        else if derivative_small f epsilon x then Inl DerivativeTooSmall
        else newton_from f epsilon n (Suc i) (nsub x (ndiv (fst (f x)) (snd (f x))))
      else Inl MaxIterationsReached)"
  by (subst newton_from.simps)
     (simp add: value_small_def derivative_small_def split: prod.splits)

text \<open>As long as no test fires, the loop walks along the sequence.\<close>

lemma newton_from_advance:
  assumes "k \<le> n"
    and "\<forall>j<k. \<not> value_small f epsilon (newton_seq f x0 j)
             \<and> \<not> derivative_small f epsilon (newton_seq f x0 j)"
  shows "newton f x0 epsilon n = newton_from f epsilon n k (newton_seq f x0 k)"
  using assms
proof (induction k)
  case 0
  then show ?case by (simp add: newton_def)
next
  case (Suc k)
  then have "newton f x0 epsilon n = newton_from f epsilon n k (newton_seq f x0 k)"
    by simp
  also have "\<dots> = newton_from f epsilon n (Suc k) (newton_seq f x0 (Suc k))"
    using Suc.prems by (subst newton_from_step) simp
  finally show ?case .
qed

lemma solver_newton:
  "arrives_at inp k \<Longrightarrow> k \<le> default_maxIterations \<Longrightarrow>
   newton (objectiveFunction inp) (Fin (99 / 100)) default_epsilon default_maxIterations
     = newton_from (objectiveFunction inp) default_epsilon default_maxIterations k (iterate inp k)"
  unfolding arrives_at_def accepted_at_def flat_at_def iterate_def
  by (rule newton_from_advance) auto

lemma solver_accepts:
  assumes "arrives_at inp k" and "k < default_maxIterations" and "accepted_at inp k"
  shows "newton (objectiveFunction inp) (Fin (99 / 100)) default_epsilon default_maxIterations
           = Inr (iterate inp k)"
proof -
  have "newton_from (objectiveFunction inp) default_epsilon default_maxIterations k (iterate inp k)
          = Inr (iterate inp k)"
    using assms by (subst newton_from_step) (simp add: accepted_at_def)
  then show ?thesis
    using assms solver_newton [of inp k] by simp
qed

lemma solver_flat:
  assumes "arrives_at inp k" and "k < default_maxIterations"
    and "\<not> accepted_at inp k" and "flat_at inp k"
  shows "newton (objectiveFunction inp) (Fin (99 / 100)) default_epsilon default_maxIterations
           = Inl DerivativeTooSmall"
proof -
  have "newton_from (objectiveFunction inp) default_epsilon default_maxIterations k (iterate inp k)
          = Inl DerivativeTooSmall"
    using assms by (subst newton_from_step) (simp add: accepted_at_def flat_at_def)
  then show ?thesis
    using assms solver_newton [of inp k] by simp
qed

lemma solver_cap:
  assumes "arrives_at inp default_maxIterations"
  shows "newton (objectiveFunction inp) (Fin (99 / 100)) default_epsilon default_maxIterations
           = Inl MaxIterationsReached"
proof -
  have "newton_from (objectiveFunction inp) default_epsilon default_maxIterations
          default_maxIterations (iterate inp default_maxIterations) = Inl MaxIterationsReached"
    by (subst newton_from_step) simp
  then show ?thesis
    using assms solver_newton [of inp default_maxIterations] by simp
qed

text \<open>One of the three happens: the first iterate at which a test fires decides.\<close>

lemma solver_exhaustive:
  "(\<exists>k<n. arrives_at inp k \<and> accepted_at inp k)
   \<or> (\<exists>k<n. arrives_at inp k \<and> \<not> accepted_at inp k \<and> flat_at inp k)
   \<or> arrives_at inp n"
proof (cases "\<exists>j<n. accepted_at inp j \<or> flat_at inp j")
  case False
  then have "arrives_at inp n"
    by (simp add: arrives_at_def)
  then show ?thesis by simp
next
  case True
  let ?stops = "\<lambda>j. j < n \<and> (accepted_at inp j \<or> flat_at inp j)"
  define k where "k = (LEAST j. ?stops j)"
  from True obtain j0 where "?stops j0" by blast
  then have k: "?stops k"
    unfolding k_def by (rule LeastI)
  have "\<not> ?stops j" if "j < k" for j
    using that unfolding k_def by (rule not_less_Least)
  moreover have "j < n" if "j < k" for j
    using that k by simp
  ultimately have "\<forall>j<k. \<not> accepted_at inp j \<and> \<not> flat_at inp j"
    by blast
  then have arr: "arrives_at inp k"
    by (simp add: arrives_at_def)
  show ?thesis
  proof (cases "accepted_at inp k")
    case True
    then show ?thesis using k arr by blast
  next
    case False
    then have "flat_at inp k" using k by simp
    then show ?thesis using k arr False by blast
  qed
qed

lemma solver_converged_iff:
  "converged (computeEffectiveAnnualRate inp) \<longleftrightarrow>
     (\<exists>x. newton (objectiveFunction inp) (Fin (99 / 100)) default_epsilon default_maxIterations
            = Inr x)"
  by (simp add: computeEffectiveAnnualRate_def split: sum.splits)

lemma solver_not_converged:
  "\<not> converged (computeEffectiveAnnualRate inp) \<Longrightarrow>
     computeEffectiveAnnualRate inp = nonConverged"
  by (simp add: computeEffectiveAnnualRate_def nonConverged_def split: sum.splits)

subsection \<open>The objective function\<close>

lemma objective_fold_sums:
  "fold (objectiveStep (Fin A) (Fin x)) [0..<n] (Fin 0, Fin 0)
     = (Fin (\<Sum>i<n. A * x ^ (i + 1)), Fin (\<Sum>i<n. real (i + 1) * x ^ i))"
proof (induction n)
  case 0
  then show ?case by simp
next
  case (Suc n)
  have "fold (objectiveStep (Fin A) (Fin x)) [0..<Suc n] (Fin 0, Fin 0)
      = objectiveStep (Fin A) (Fin x) n
          (Fin (\<Sum>i<n. A * x ^ (i + 1)), Fin (\<Sum>i<n. real (i + 1) * x ^ i))"
    by (simp add: Suc)
  also have "\<dots> = (Fin (\<Sum>i<Suc n. A * x ^ (i + 1)), Fin (\<Sum>i<Suc n. real (i + 1) * x ^ i))"
    by (simp add: objectiveStep_def npow_Fin of_count_def)
  finally show ?case .
qed

text \<open>
  On finite numbers the objective function is the polynomial of the cash flow, the sum of
  \<open>A * x\<^sup>i\<close> for \<open>i\<close> from 1 to the count of months plus \<open>initialFees - principal\<close>, with
  its derivative, \<open>A\<close> times the sum of \<open>i * x\<^sup>i\<^sup>-\<^sup>1\<close>.
\<close>

lemma objective_polynomial:
  assumes "averageInstallment inp = Fin A" and "ri_initialFees inp = Fin f"
    and "ri_principal inp = Fin p"
  shows "objectiveFunction inp (Fin x)
     = (Fin ((\<Sum>i<ri_months inp. A * x ^ (i + 1)) + (f - p)),
        Fin ((\<Sum>i<ri_months inp. real (i + 1) * x ^ i) * A))"
  using assms by (simp add: objectiveFunction_def objective_fold_sums nsub_Fin)

lemma objectiveStep_value:
  "fst (objectiveStep avg x i acc) = nadd (fst acc) (nmul avg (npow x (i + 1)))"
  by (cases acc) (simp add: objectiveStep_def)

lemma objective_value:
  "fst (objectiveFunction inp x)
     = nadd (fst (fold (objectiveStep (averageInstallment inp) x) [0..<ri_months inp]
                    (Fin 0, Fin 0)))
            (nsub (ri_initialFees inp) (ri_principal inp))"
  by (simp add: objectiveFunction_def split: prod.splits)

text \<open>At a point that is not finite the value is not finite, when there is a month.\<close>

lemma objective_not_finite:
  assumes "\<not> isFinite x" and "1 \<le> ri_months inp"
  shows "\<not> isFinite (fst (objectiveFunction inp x))"
proof -
  obtain m where m: "ri_months inp = Suc m"
    using assms(2) by (cases "ri_months inp") auto
  let ?acc = "fold (objectiveStep (averageInstallment inp) x) [0..<m] (Fin 0, Fin 0)"
  have "\<not> isFinite (nmul (averageInstallment inp) (npow x (m + 1)))"
    using assms(1) by (intro nmul_not_finite npow_not_finite) auto
  then have "\<not> isFinite (nadd (fst ?acc) (nmul (averageInstallment inp) (npow x (m + 1))))"
    by (rule nadd_not_finite)
  then have "\<not> isFinite (fst (objectiveStep (averageInstallment inp) x m ?acc))"
    by (simp add: objectiveStep_value)
  then have "\<not> isFinite (nadd (fst (objectiveStep (averageInstallment inp) x m ?acc))
      (nsub (ri_initialFees inp) (ri_principal inp)))"
    by (rule nadd_not_finite_left)
  moreover have "fold (objectiveStep (averageInstallment inp) x) [0..<ri_months inp] (Fin 0, Fin 0)
      = objectiveStep (averageInstallment inp) x m ?acc"
    by (simp add: m)
  ultimately show ?thesis
    by (simp add: objective_value)
qed

lemma objective_no_months:
  assumes "ri_months inp = 0"
  shows "fst (objectiveFunction inp x) = fst (objectiveFunction inp y)"
  using assms by (simp add: objective_value)

text \<open>An iterate that is accepted is finite.\<close>

lemma accepted_iterate_finite:
  assumes "arrives_at inp k" and "accepted_at inp k"
  shows "isFinite (iterate inp k)"
proof (cases "1 \<le> ri_months inp")
  case True
  show ?thesis
  proof (rule ccontr)
    assume "\<not> isFinite (iterate inp k)"
    then have "\<not> isFinite (fst (objectiveFunction inp (iterate inp k)))"
      using True by (rule objective_not_finite)
    then have "\<not> accepted_at inp k"
      unfolding accepted_at_def value_small_def by (rule not_finite_not_small)
    then show False using assms(2) by simp
  qed
next
  case False
  then have none: "ri_months inp = 0" by simp
  have "accepted_at inp 0"
    using assms(2) objective_no_months [OF none, of "iterate inp k" "iterate inp 0"]
    by (simp add: accepted_at_def value_small_def)
  then have "k = 0"
    using assms(1) by (cases k) (auto simp: arrives_at_def)
  then show ?thesis
    by (simp add: iterate_def isFinite_def)
qed

text \<open>What \<^verbatim>\<open>newton\<close> returns is an iterate that was accepted.\<close>

lemma newton_result:
  assumes "newton (objectiveFunction inp) (Fin (99 / 100)) default_epsilon default_maxIterations
             = Inr x"
  shows "\<exists>k<default_maxIterations. arrives_at inp k \<and> accepted_at inp k \<and> x = iterate inp k"
proof -
  consider
    (acc) k where "k < default_maxIterations" "arrives_at inp k" "accepted_at inp k"
  | (flat) k where "k < default_maxIterations" "arrives_at inp k" "\<not> accepted_at inp k"
      "flat_at inp k"
  | (cap) "arrives_at inp default_maxIterations"
    using solver_exhaustive [of default_maxIterations inp] by blast
  then show ?thesis
  proof cases
    case acc
    then have "x = iterate inp k"
      using assms solver_accepts [of inp k] by simp
    then show ?thesis using acc by blast
  next
    case flat
    then show ?thesis
      using assms solver_flat [of inp k] by simp
  next
    case cap
    then show ?thesis
      using assms solver_cap [of inp] by simp
  qed
qed

subsection \<open>Three examples\<close>

lemma converging_example:
  "arrives_at convergingRateInput 1 \<and> accepted_at convergingRateInput 1"
  by code_simp

lemma converging_iterate: "iterate convergingRateInput 1 = Fin (100 / 101)"
  by code_simp

lemma converging_newton:
  "newton (objectiveFunction convergingRateInput) (Fin (99 / 100)) default_epsilon
     default_maxIterations = Inr (Fin (100 / 101))"
  using converging_example converging_iterate solver_accepts [of convergingRateInput 1]
  by (simp add: default_maxIterations_def)

lemma flat_example:
  "arrives_at flatRateInput 0 \<and> \<not> accepted_at flatRateInput 0 \<and> flat_at flatRateInput 0"
  by code_simp

lemma cycling_objective:
  "objectiveFunction cyclingRateInput (Fin x)
     = (Fin (10000 * (x + x ^ 2) + 69103), Fin ((1 + 2 * x) * 10000))"
proof -
  have "averageInstallment cyclingRateInput = Fin 10000"
    "ri_initialFees cyclingRateInput = Fin 69103" "ri_principal cyclingRateInput = Fin 0"
    by (simp_all add: averageInstallment_def totalReimbursed_def cyclingRateInput_def
        nsub_Fin of_count_def)
  then have "objectiveFunction cyclingRateInput (Fin x)
     = (Fin ((\<Sum>i<ri_months cyclingRateInput. 10000 * x ^ (i + 1)) + (69103 - 0)),
        Fin ((\<Sum>i<ri_months cyclingRateInput. real (i + 1) * x ^ i) * 10000))"
    by (rule objective_polynomial)
  moreover have "ri_months cyclingRateInput = Suc (Suc 0)"
    by (simp add: cyclingRateInput_def)
  ultimately show ?thesis
    by (simp add: power2_eq_square algebra_simps)
qed

lemma cycling_iterate:
  "iterate cyclingRateInput k = Fin (if even k then 99 / 100 else - 199 / 100)"
proof (induction k)
  case 0
  then show ?case by (simp add: iterate_def)
next
  case (Suc k)
  have "iterate cyclingRateInput (Suc k)
      = nsub (iterate cyclingRateInput k)
             (ndiv (fst (objectiveFunction cyclingRateInput (iterate cyclingRateInput k)))
                   (snd (objectiveFunction cyclingRateInput (iterate cyclingRateInput k))))"
    by (simp add: iterate_def)
  then show ?case
    by (simp add: Suc cycling_objective nsub_Fin power2_eq_square)
qed

lemma cycling_example: "arrives_at cyclingRateInput n"
  by (simp add: arrives_at_def accepted_at_def flat_at_def value_small_def derivative_small_def
      cycling_iterate cycling_objective default_epsilon_def power2_eq_square)

subsection \<open>The outcome of the solver\<close>

text \<open>
  Claim C1. The solver runs Newton-Raphson on the objective function \<open>g\<close>, the polynomial of
  the cash flow, from \<open>x\<^sub>0 = 0.99\<close>. It returns a converged result exactly when the loop
  arrives, within its first 100 iterations, at an iterate \<open>x\<close> with \<open>|g(x)| < 10\<^sup>-\<^sup>7\<close>, and the
  result is then the rate of that iterate. It does not converge exactly when it arrives at
  an iterate that is not accepted and where \<open>|g'(x)| < 10\<^sup>-\<^sup>7\<close>, or when it has made 100
  iterations. In both cases the caller gets the value that is tagged as not converged and
  has no rate: no error leaves the solver.
\<close>

theorem solver_outcome:
  "iterate inp 0 = Fin (99 / 100)
   \<and> (\<forall>k. iterate inp (Suc k)
          = nsub (iterate inp k)
                 (ndiv (fst (objectiveFunction inp (iterate inp k)))
                       (snd (objectiveFunction inp (iterate inp k)))))
   \<and> averageInstallment inp
       = ndiv (nsub (nadd (ri_totalCost inp) (ri_principal inp)) (ri_initialFees inp))
              (of_count (ri_months inp))
   \<and> (\<forall>A f p x. averageInstallment inp = Fin A \<and> ri_initialFees inp = Fin f
          \<and> ri_principal inp = Fin p
        \<longrightarrow> objectiveFunction inp (Fin x)
              = (Fin ((\<Sum>i<ri_months inp. A * x ^ (i + 1)) + (f - p)),
                 Fin ((\<Sum>i<ri_months inp. real (i + 1) * x ^ i) * A)))
   \<and> (\<forall>k. accepted_at inp k \<longleftrightarrow>
          nlt (nabs (fst (objectiveFunction inp (iterate inp k)))) (Fin (1 / 10 ^ 7)))
   \<and> (\<forall>k. flat_at inp k \<longleftrightarrow>
          nlt (nabs (snd (objectiveFunction inp (iterate inp k)))) (Fin (1 / 10 ^ 7)))
   \<and> (\<forall>k. arrives_at inp k \<longleftrightarrow> (\<forall>j<k. \<not> accepted_at inp j \<and> \<not> flat_at inp j))
   \<and> (converged (computeEffectiveAnnualRate inp) \<longleftrightarrow>
        (\<exists>k<100. arrives_at inp k \<and> accepted_at inp k))
   \<and> (\<forall>k<100. arrives_at inp k \<and> accepted_at inp k
        \<longrightarrow> computeEffectiveAnnualRate inp
              = \<lparr> converged = True,
                  rate = Some (nsub (npow (ndiv (Fin 1) (iterate inp k)) 12) (Fin 1)) \<rparr>)
   \<and> (\<not> converged (computeEffectiveAnnualRate inp) \<longleftrightarrow>
        (\<exists>k<100. arrives_at inp k \<and> \<not> accepted_at inp k \<and> flat_at inp k)
        \<or> arrives_at inp 100)
   \<and> (\<not> converged (computeEffectiveAnnualRate inp) \<longrightarrow>
        computeEffectiveAnnualRate inp = nonConverged)"
proof -
  let ?c = "converged (computeEffectiveAnnualRate inp)"
  have acc: "?c" if "k < 100" "arrives_at inp k" "accepted_at inp k" for k
    using that solver_accepts [of inp k]
    by (simp add: solver_converged_iff default_maxIterations_def)
  have flat: "\<not> ?c" if "k < 100" "arrives_at inp k" "\<not> accepted_at inp k" "flat_at inp k" for k
    using that solver_flat [of inp k]
    by (simp add: solver_converged_iff default_maxIterations_def)
  have cap: "\<not> ?c" if "arrives_at inp 100"
    using that solver_cap [of inp]
    by (simp add: solver_converged_iff default_maxIterations_def)
  have cases: "(\<exists>k<100. arrives_at inp k \<and> accepted_at inp k)
      \<or> (\<exists>k<100. arrives_at inp k \<and> \<not> accepted_at inp k \<and> flat_at inp k)
      \<or> arrives_at inp 100"
    by (rule solver_exhaustive)
  have one: "?c \<longleftrightarrow> (\<exists>k<100. arrives_at inp k \<and> accepted_at inp k)"
    using acc flat cap cases by blast
  have two: "\<not> ?c \<longleftrightarrow>
      (\<exists>k<100. arrives_at inp k \<and> \<not> accepted_at inp k \<and> flat_at inp k) \<or> arrives_at inp 100"
    using acc flat cap cases by blast
  have three: "computeEffectiveAnnualRate inp
      = \<lparr> converged = True,
          rate = Some (nsub (npow (ndiv (Fin 1) (iterate inp k)) 12) (Fin 1)) \<rparr>"
    if "k < 100" "arrives_at inp k" "accepted_at inp k" for k
    using that solver_accepts [of inp k]
    by (simp add: computeEffectiveAnnualRate_def default_maxIterations_def)
  have seq: "iterate inp 0 = Fin (99 / 100)"
    "\<And>k. iterate inp (Suc k)
          = nsub (iterate inp k)
                 (ndiv (fst (objectiveFunction inp (iterate inp k)))
                       (snd (objectiveFunction inp (iterate inp k))))"
    by (simp_all add: iterate_def)
  have poly: "objectiveFunction inp (Fin x)
      = (Fin ((\<Sum>i<ri_months inp. A * x ^ (i + 1)) + (f - p)),
         Fin ((\<Sum>i<ri_months inp. real (i + 1) * x ^ i) * A))"
    if "averageInstallment inp = Fin A" "ri_initialFees inp = Fin f" "ri_principal inp = Fin p"
    for A f p x
    using that by (rule objective_polynomial)
  have tests: "accepted_at inp k \<longleftrightarrow>
        nlt (nabs (fst (objectiveFunction inp (iterate inp k)))) (Fin (1 / 10 ^ 7))"
    "flat_at inp k \<longleftrightarrow>
        nlt (nabs (snd (objectiveFunction inp (iterate inp k)))) (Fin (1 / 10 ^ 7))"
    "arrives_at inp k \<longleftrightarrow> (\<forall>j<k. \<not> accepted_at inp j \<and> \<not> flat_at inp j)" for k
    by (auto simp: accepted_at_def flat_at_def arrives_at_def value_small_def
        derivative_small_def default_epsilon_def)
  have four: "computeEffectiveAnnualRate inp = nonConverged"
    if "\<not> converged (computeEffectiveAnnualRate inp)"
    using that by (rule solver_not_converged)
  have avg: "averageInstallment inp
       = ndiv (nsub (nadd (ri_totalCost inp) (ri_principal inp)) (ri_initialFees inp))
              (of_count (ri_months inp))"
    by (simp add: averageInstallment_def totalReimbursed_def)
  show ?thesis
    by (intro conjI allI impI seq tests one two avg) (use poly three four in blast)+
qed

theorem solver_outcome_witness:
  "averageInstallment convergingRateInput = Fin 101
   \<and> objectiveFunction convergingRateInput (Fin (99 / 100)) = (Fin (- 1 / 100), Fin 101)
   \<and> iterate convergingRateInput 1 = Fin (100 / 101)
   \<and> arrives_at convergingRateInput 1 \<and> accepted_at convergingRateInput 1
   \<and> nlt (nabs (fst (objectiveFunction convergingRateInput (iterate convergingRateInput 1))))
          (Fin (1 / 10 ^ 7))
   \<and> computeEffectiveAnnualRate convergingRateInput
       = \<lparr> converged = True, rate = Some (Fin ((101 / 100) ^ 12 - 1)) \<rparr>
   \<and> arrives_at flatRateInput 0 \<and> \<not> accepted_at flatRateInput 0 \<and> flat_at flatRateInput 0
   \<and> \<not> nlt (nabs (fst (objectiveFunction flatRateInput (iterate flatRateInput 0))))
            (Fin (1 / 10 ^ 7))
   \<and> nlt (nabs (snd (objectiveFunction flatRateInput (iterate flatRateInput 0))))
          (Fin (1 / 10 ^ 7))
   \<and> computeEffectiveAnnualRate flatRateInput = nonConverged
   \<and> arrives_at cyclingRateInput 100
   \<and> computeEffectiveAnnualRate cyclingRateInput = nonConverged"
proof -
  have t1: "nlt (nabs (fst (objectiveFunction convergingRateInput
                              (iterate convergingRateInput 1)))) (Fin (1 / 10 ^ 7))"
    using solver_outcome [of convergingRateInput] converging_example by blast
  have t2: "\<not> nlt (nabs (fst (objectiveFunction flatRateInput (iterate flatRateInput 0))))
                 (Fin (1 / 10 ^ 7))"
    "nlt (nabs (snd (objectiveFunction flatRateInput (iterate flatRateInput 0))))
         (Fin (1 / 10 ^ 7))"
    using solver_outcome [of flatRateInput] flat_example by blast+
  have avg: "averageInstallment convergingRateInput = Fin 101"
    "ri_initialFees convergingRateInput = Fin 0" "ri_principal convergingRateInput = Fin 100"
    "ri_months convergingRateInput = 1"
    by (simp_all add: averageInstallment_def totalReimbursed_def convergingRateInput_def
        nsub_Fin of_count_def)
  have "objectiveFunction convergingRateInput (Fin (99 / 100))
      = (Fin ((\<Sum>i<ri_months convergingRateInput. 101 * (99 / 100) ^ (i + 1)) + (0 - 100)),
         Fin ((\<Sum>i<ri_months convergingRateInput. real (i + 1) * (99 / 100) ^ i) * 101))"
    using solver_outcome [of convergingRateInput] avg by blast
  then have g: "objectiveFunction convergingRateInput (Fin (99 / 100)) = (Fin (- 1 / 100), Fin 101)"
    by (simp add: avg)
  have "computeEffectiveAnnualRate convergingRateInput
      = \<lparr> converged = True,
          rate = Some (nsub (npow (ndiv (Fin 1) (iterate convergingRateInput 1)) 12) (Fin 1)) \<rparr>"
  proof -
    have "\<forall>k<100. arrives_at convergingRateInput k \<and> accepted_at convergingRateInput k
        \<longrightarrow> computeEffectiveAnnualRate convergingRateInput
              = \<lparr> converged = True,
                  rate = Some (nsub (npow (ndiv (Fin 1) (iterate convergingRateInput k)) 12)
                                    (Fin 1)) \<rparr>"
      using solver_outcome [of convergingRateInput] by blast
    then have "(1::nat) < 100 \<longrightarrow> arrives_at convergingRateInput 1 \<and> accepted_at convergingRateInput 1
        \<longrightarrow> computeEffectiveAnnualRate convergingRateInput
              = \<lparr> converged = True,
                  rate = Some (nsub (npow (ndiv (Fin 1) (iterate convergingRateInput 1)) 12)
                                    (Fin 1)) \<rparr>"
      by (rule spec)
    then show ?thesis
      using converging_example by simp
  qed
  then have r: "computeEffectiveAnnualRate convergingRateInput
      = \<lparr> converged = True, rate = Some (Fin ((101 / 100) ^ 12 - 1)) \<rparr>"
    unfolding converging_iterate by (simp add: npow_Fin nsub_Fin)
  have b: "\<exists>k<100. arrives_at flatRateInput k \<and> \<not> accepted_at flatRateInput k
             \<and> flat_at flatRateInput k"
    using flat_example by (intro exI [of _ 0]) simp
  have c: "arrives_at cyclingRateInput 100"
    by (rule cycling_example)
  have "computeEffectiveAnnualRate flatRateInput = nonConverged"
    using b solver_outcome [of flatRateInput] by blast
  moreover have "computeEffectiveAnnualRate cyclingRateInput = nonConverged"
    using c solver_outcome [of cyclingRateInput] by blast
  ultimately show ?thesis
    using avg(1) g r converging_iterate converging_example flat_example c t1 t2 by simp
qed

subsection \<open>Annualization\<close>

text \<open>
  Claim C4. Whenever \<^verbatim>\<open>newton\<close> converges to a discount factor \<open>x\<close>, the solver returns the
  annualized rate \<open>(1 / x) ** 12 - 1\<close>, tagged as converged. The factor is finite; the rate
  is the real number \<open>(1 / x)\<^sup>1\<^sup>2 - 1\<close>, and infinite for the factor zero.
\<close>

theorem annualized_rate:
  assumes "newton (objectiveFunction inp) (Fin (99 / 100)) default_epsilon default_maxIterations
             = Inr x"
  shows "computeEffectiveAnnualRate inp =
           \<lparr> converged = True, rate = Some (nsub (npow (ndiv (Fin 1) x) 12) (Fin 1)) \<rparr>
       \<and> (\<exists>y. x = Fin y
             \<and> rate (computeEffectiveAnnualRate inp)
                 = Some (if y = 0 then PInf else Fin ((1 / y) ^ 12 - 1)))"
proof -
  obtain k where "arrives_at inp k" "accepted_at inp k" "x = iterate inp k"
    using newton_result [OF assms] by blast
  then obtain y where y: "x = Fin y"
    using accepted_iterate_finite [of inp k] by (auto simp: isFinite_iff)
  have "nsub (npow (ndiv (Fin 1) (Fin y)) 12) (Fin 1)
      = (if y = 0 then PInf else Fin ((1 / y) ^ 12 - 1))"
    by (simp add: npow_def nsub_def signed_inf_def)
  then show ?thesis
    using assms y by (simp add: computeEffectiveAnnualRate_def)
qed

theorem annualized_rate_witness:
  "newton (objectiveFunction convergingRateInput) (Fin (99 / 100)) default_epsilon
     default_maxIterations = Inr (Fin (100 / 101))
   \<and> computeEffectiveAnnualRate convergingRateInput =
       \<lparr> converged = True, rate = Some (Fin ((101 / 100) ^ 12 - 1)) \<rparr>"
proof -
  have "nsub (npow (ndiv (Fin 1) (Fin (100 / 101))) 12) (Fin 1) = Fin ((101 / 100) ^ 12 - 1)"
    by (simp add: npow_Fin nsub_Fin)
  then show ?thesis
    using annualized_rate [OF converging_newton] converging_newton by simp
qed

section \<open>The amortization\<close>

text \<open>
  Claim C2. For a principal that is at least zero and a count of months that is at least one,
  at the annual rate zero the installment is \<^verbatim>\<open>principal / months\<close>, the real quotient, and
  the total of the interests is zero.
\<close>

theorem zero_rate_exact:
  assumes "principal inputs = Fin p" and "0 \<le> p" and "1 \<le> months inputs"
    and "annualRate inputs = Fin 0"
  shows "ic_monthlyInstallmentWithoutInsurance (computeInterestCost inputs)
           = ndiv (principal inputs) (of_count (months inputs))
       \<and> ic_monthlyInstallmentWithoutInsurance (computeInterestCost inputs)
           = Fin (p / real (months inputs))
       \<and> ic_totalInterests (computeInterestCost inputs) = Fin 0"
  using assms by (simp add: computeInterestCost_def strict_eq_def of_count_def)

theorem zero_rate_exact_witness:
  "principal zeroRateLoan = Fin 12000 \<and> (0::real) \<le> 12000 \<and> 1 \<le> months zeroRateLoan
   \<and> annualRate zeroRateLoan = Fin 0
   \<and> ic_monthlyInstallmentWithoutInsurance (computeInterestCost zeroRateLoan) = Fin 1000
   \<and> ic_totalInterests (computeInterestCost zeroRateLoan) = Fin 0"
  using zero_rate_exact [of zeroRateLoan 12000]
  by (simp add: zeroRateLoan_def of_count_def)

subsection \<open>Closed forms\<close>

lemma compound_gt_one:
  fixes r :: real
  assumes "0 < r" and "1 \<le> n"
  shows "1 < (1 + r) ^ n"
  using assms by (intro one_less_power) auto

lemma interest_cost_positive_rate:
  assumes "principal inputs = Fin p" and "annualRate inputs = Fin a" and "0 < a"
    and "1 \<le> months inputs"
  shows "computeInterestCost inputs =
    \<lparr> ic_monthlyInstallmentWithoutInsurance =
         Fin (p * (a / 12) * (1 + a / 12) ^ months inputs / ((1 + a / 12) ^ months inputs - 1)),
       ic_totalInterests =
         Fin (p * (a / 12) * (1 + a / 12) ^ months inputs / ((1 + a / 12) ^ months inputs - 1)
                * real (months inputs) - p) \<rparr>"
proof -
  have "1 < (1 + a / 12) ^ months inputs"
    using assms by (intro compound_gt_one) auto
  then have nz: "(1 + a / 12) ^ months inputs - 1 \<noteq> 0"
    by simp
  show ?thesis
    using assms nz
    by (simp add: computeInterestCost_def strict_eq_def npow_Fin nsub_Fin of_count_def Let_def)
qed

lemma interest_cost_zero_rate:
  assumes "annualRate inputs = Fin 0"
  shows "computeInterestCost inputs =
    \<lparr> ic_monthlyInstallmentWithoutInsurance = ndiv (principal inputs) (of_count (months inputs)),
       ic_totalInterests = Fin 0 \<rparr>"
  using assms by (simp add: computeInterestCost_def strict_eq_def)

lemma interest_cost_finite:
  assumes "principal inputs = Fin p" and "0 \<le> p" and "annualRate inputs = Fin a" and "0 \<le> a"
    and "1 \<le> months inputs"
  shows "\<exists>m t. computeInterestCost inputs =
           \<lparr> ic_monthlyInstallmentWithoutInsurance = Fin m, ic_totalInterests = Fin t \<rparr>"
proof (cases "a = 0")
  case True
  then show ?thesis
    using assms interest_cost_zero_rate [of inputs] by (simp add: of_count_def)
next
  case False
  then have "0 < a" using assms by simp
  then show ?thesis
    using assms interest_cost_positive_rate [of inputs p a] by simp
qed

text \<open>
  Computed in exact arithmetic, for a principal that is at least zero, a positive annual
  rate and at least one month, with \<open>r = annualRate / 12\<close> and \<open>f = (1 + r)\<^sup>n\<close>, the
  installment is \<open>principal * r * f / (f - 1)\<close>, where \<open>f - 1\<close> is not zero, the total of the
  interests is the installment times the months minus the principal, and the two sides of
  that identity do not differ.
\<close>

theorem amortization_formula:
  assumes "principal inputs = Fin p" and "0 \<le> p" and "annualRate inputs = Fin a" and "0 < a"
    and "1 \<le> months inputs"
  shows "let r = a / 12;
             f = (1 + r) ^ months inputs;
             installment = p * r * f / (f - 1)
         in f - 1 \<noteq> 0
          \<and> ic_monthlyInstallmentWithoutInsurance (computeInterestCost inputs) = Fin installment
          \<and> ic_totalInterests (computeInterestCost inputs)
              = Fin (installment * real (months inputs) - p)
          \<and> nlt (nabs (nsub (nsub (nmul (ic_monthlyInstallmentWithoutInsurance
                                           (computeInterestCost inputs))
                                         (of_count (months inputs)))
                                   (principal inputs))
                             (ic_totalInterests (computeInterestCost inputs))))
                 (Fin (1 / 10 ^ 9))"
proof -
  have "1 < (1 + a / 12) ^ months inputs"
    using assms by (intro compound_gt_one) auto
  then have nz: "(1 + a / 12) ^ months inputs - 1 \<noteq> 0"
    by simp
  show ?thesis
    using nz assms interest_cost_positive_rate [of inputs p a]
    by (simp add: Let_def of_count_def nsub_Fin)
qed

theorem amortization_formula_witness:
  "principal twoMonthLoan = Fin 1000 \<and> annualRate twoMonthLoan = Fin (12 / 100)
   \<and> 1 \<le> months twoMonthLoan
   \<and> ic_monthlyInstallmentWithoutInsurance (computeInterestCost twoMonthLoan) = Fin (102010 / 201)
   \<and> ic_totalInterests (computeInterestCost twoMonthLoan) = Fin (3020 / 201)"
proof -
  have a: "principal twoMonthLoan = Fin 1000" "annualRate twoMonthLoan = Fin (12 / 100)"
    "1 \<le> months twoMonthLoan" "months twoMonthLoan = 2"
    by (simp_all add: twoMonthLoan_def)
  have "(0::real) \<le> 1000" "(0::real) < 12 / 100"
    by simp_all
  with a show ?thesis
    using amortization_formula [of twoMonthLoan 1000 "12 / 100"]
    by (simp add: Let_def power2_eq_square)
qed

subsection \<open>The identity of the amortization, with rounding\<close>

text \<open>
  Claim C3. For a positive annual rate the installment is to be \<open>principal * r * f / (f - 1)\<close>
  and the total of the interests the installment times the months minus the principal, the
  two sides of that identity within \<open>10\<^sup>-\<^sup>9\<close> of each other. In binary64 they are not: at the
  annual rate \<open>3 * 2\<^sup>-\<^sup>5\<^sup>8\<close>, which is positive, with a principal of 1000 over 12 months, the
  compound factor rounds to 1 and \<open>f - 1\<close> to zero, the installment and the total of the
  interests are infinite, and the difference of the two sides of the identity is NaN, which
  is not below \<open>10\<^sup>-\<^sup>9\<close>.
\<close>

theorem tiny_rate_breaks_identity:
  "principal tinyRateLoan = Fin 1000 \<and> annualRate tinyRateLoan = Fin (3 / 2 ^ 58)
   \<and> (0::real) < 3 / 2 ^ 58 \<and> months tinyRateLoan = 12
   \<and> ic_monthlyInstallmentWithoutInsurance (computeInterestCost_binary64 tinyRateLoan) = PInf
   \<and> ic_totalInterests (computeInterestCost_binary64 tinyRateLoan) = PInf
   \<and> rounded (nsub (rounded (nsub (rounded (nmul (ic_monthlyInstallmentWithoutInsurance
                                                    (computeInterestCost_binary64 tinyRateLoan))
                                                 (of_count (months tinyRateLoan))))
                                  (principal tinyRateLoan)))
                  (ic_totalInterests (computeInterestCost_binary64 tinyRateLoan))) = NaN
   \<and> \<not> nlt (nabs (rounded (nsub (rounded (nsub (rounded (nmul
                 (ic_monthlyInstallmentWithoutInsurance
                    (computeInterestCost_binary64 tinyRateLoan))
                 (of_count (months tinyRateLoan))))
               (principal tinyRateLoan)))
             (ic_totalInterests (computeInterestCost_binary64 tinyRateLoan)))))
          (Fin (1 / 10 ^ 9))"
  by (simp add: tiny_rate_cost) (simp add: tinyRateLoan_def rounded_def of_count_def nsub_def
      signed_inf_def)

subsection \<open>The installment grows with the rate\<close>












section \<open>A cash flow without installments\<close>

text \<open>With an average installment of zero the objective function is constant.\<close>

lemma objective_zero_installment:
  assumes "averageInstallment inp = Fin 0" and "ri_initialFees inp = Fin f"
    and "ri_principal inp = Fin p"
  shows "objectiveFunction inp (Fin x) = (Fin (f - p), Fin 0)"
  using objective_polynomial [OF assms, of x] by simp

text \<open>
  Claim C6, amended. When the average installment is zero and the initial fees differ from
  the principal by at least \<open>10\<^sup>-\<^sup>7\<close>, the solver reports that it has not converged: the
  derivative is zero at the first iterate. (A difference that is not zero but below
  \<open>10\<^sup>-\<^sup>7\<close> passes the test of convergence at \<open>x\<^sub>0\<close>, as the counterexample shows.)
\<close>

theorem degenerate_cash_flow:
  assumes "averageInstallment inp = Fin 0" and "ri_initialFees inp = Fin f"
    and "ri_principal inp = Fin p" and "1 / 10 ^ 7 \<le> \<bar>f - p\<bar>"
  shows "computeEffectiveAnnualRate inp = nonConverged"
proof -
  have g: "objectiveFunction inp (Fin (99 / 100)) = (Fin (f - p), Fin 0)"
    using assms by (intro objective_zero_installment) auto
  have "arrives_at inp 0"
    by (simp add: arrives_at_def)
  moreover have "\<not> accepted_at inp 0"
    using assms(4) by (simp add: accepted_at_def value_small_def iterate_def g default_epsilon_def)
  moreover have "flat_at inp 0"
    by (simp add: flat_at_def derivative_small_def iterate_def g default_epsilon_def)
  ultimately have "newton (objectiveFunction inp) (Fin (99 / 100)) default_epsilon
      default_maxIterations = Inl DerivativeTooSmall"
    by (intro solver_flat) (auto simp: default_maxIterations_def)
  then show ?thesis
    by (simp add: computeEffectiveAnnualRate_def nonConverged_def)
qed

theorem degenerate_cash_flow_witness:
  "averageInstallment flatRateInput = Fin 0 \<and> ri_initialFees flatRateInput = Fin 1
   \<and> ri_principal flatRateInput = Fin 0 \<and> (1::real) / 10 ^ 7 \<le> \<bar>1 - 0\<bar>
   \<and> computeEffectiveAnnualRate flatRateInput = nonConverged"
proof -
  have a: "averageInstallment flatRateInput = Fin 0"
    by code_simp
  have b: "ri_initialFees flatRateInput = Fin 1" "ri_principal flatRateInput = Fin 0"
    by (simp_all add: flatRateInput_def)
  have c: "(1::real) / 10 ^ 7 \<le> \<bar>1 - 0\<bar>"
    by simp
  show ?thesis
    using degenerate_cash_flow [OF a b c] a b c by simp
qed

text \<open>
  Claim C6 as it is written fails for a difference below the tolerance: with an average
  installment of zero and fees that exceed the principal by \<open>2\<^sup>-\<^sup>2\<^sup>5\<close>, the solver accepts
  \<open>x\<^sub>0 = 0.99\<close> and returns the rate \<open>(1 / 0.99)\<^sup>1\<^sup>2 - 1\<close>, tagged as converged.
\<close>

theorem degenerate_cash_flow_counterexample:
  "averageInstallment smallGapRateInput = Fin 0
   \<and> nsub (ri_initialFees smallGapRateInput) (ri_principal smallGapRateInput) = Fin (1 / 2 ^ 25)
   \<and> (1::real) / 2 ^ 25 \<noteq> 0
   \<and> computeEffectiveAnnualRate smallGapRateInput
       = \<lparr> converged = True, rate = Some (Fin ((100 / 99) ^ 12 - 1)) \<rparr>"
  by code_simp

section \<open>The breakdown of the cost\<close>

subsection \<open>The rate of the insurance\<close>

text \<open>
  Claim C5. \<^verbatim>\<open>computeLoanOutput\<close> solves the rate twice, both times with the months, the
  principal and the initial fees of the loan, with the total cost
  \<open>initialFees + totalInterests + insuranceCost\<close> and with \<open>initialFees + totalInterests\<close>,
  and sets \<^verbatim>\<open>effectiveInsuranceAnnualRate\<close> to the first rate minus the second. The result is
  NaN whenever one of the two solves does not converge.
\<close>

theorem insurance_rate:
  "effectiveAnnualRate (computeLoanOutput inputs)
     = nullish (rate (computeEffectiveAnnualRate (allInRateInput inputs))) NaN
   \<and> effectiveInsuranceAnnualRate (computeLoanOutput inputs)
     = nsub (nullish (rate (computeEffectiveAnnualRate (allInRateInput inputs))) NaN)
            (nullish (rate (computeEffectiveAnnualRate (withoutInsuranceRateInput inputs))) NaN)
   \<and> allInRateInput inputs
     = \<lparr> ri_months = months inputs, ri_principal = principal inputs,
         ri_initialFees = initialFees inputs,
         ri_totalCost =
           nadd (nadd (initialFees inputs) (totalInterests (computeLoanOutput inputs)))
                (insuranceCost inputs) \<rparr>
   \<and> withoutInsuranceRateInput inputs
     = \<lparr> ri_months = months inputs, ri_principal = principal inputs,
         ri_initialFees = initialFees inputs,
         ri_totalCost = nadd (initialFees inputs) (totalInterests (computeLoanOutput inputs)) \<rparr>
   \<and> totalInterests (computeLoanOutput inputs) = ic_totalInterests (computeInterestCost inputs)
   \<and> ri_totalCost (allInRateInput inputs)
     = nadd (nadd (initialFees inputs) (totalInterests (computeLoanOutput inputs)))
            (insuranceCost inputs)
   \<and> ri_totalCost (withoutInsuranceRateInput inputs)
     = nadd (initialFees inputs) (totalInterests (computeLoanOutput inputs))
   \<and> (\<forall>r1 r2. rate (computeEffectiveAnnualRate (allInRateInput inputs)) = Some r1
          \<and> rate (computeEffectiveAnnualRate (withoutInsuranceRateInput inputs)) = Some r2
        \<longrightarrow> effectiveInsuranceAnnualRate (computeLoanOutput inputs) = nsub r1 r2)
   \<and> (\<not> converged (computeEffectiveAnnualRate (allInRateInput inputs))
        \<or> \<not> converged (computeEffectiveAnnualRate (withoutInsuranceRateInput inputs))
      \<longrightarrow> effectiveInsuranceAnnualRate (computeLoanOutput inputs) = NaN)"
proof -
  have absent: "nullish (rate (computeEffectiveAnnualRate inp)) NaN = NaN"
    if "\<not> converged (computeEffectiveAnnualRate inp)" for inp
    using solver_not_converged [OF that] by (simp add: nonConverged_def nullish_def)
  show ?thesis
    using absent [of "allInRateInput inputs"] absent [of "withoutInsuranceRateInput inputs"]
    by (auto simp: computeLoanOutput_def Let_def allInRateInput_def withoutInsuranceRateInput_def
        nullish_def nsub_NaN_left nsub_NaN_right)
qed

lemma failing_loan_values:
  "\<not> converged (computeEffectiveAnnualRate (allInRateInput failingLoan))
   \<and> \<not> converged (computeEffectiveAnnualRate (withoutInsuranceRateInput failingLoan))"
  by code_simp

lemma insured_loan_values:
  "rate (computeEffectiveAnnualRate (allInRateInput insuredLoan)) = Some (Fin ((101 / 100) ^ 12 - 1))
   \<and> rate (computeEffectiveAnnualRate (withoutInsuranceRateInput insuredLoan)) = Some (Fin 0)"
  by code_simp

lemma cycling_loan_values:
  "allInRateInput cyclingLoan = cyclingRateInput"
  "\<not> converged (computeEffectiveAnnualRate (allInRateInput cyclingLoan))"
proof -
  show a: "allInRateInput cyclingLoan = cyclingRateInput"
    by (simp add: allInRateInput_def cyclingLoan_def cyclingRateInput_def
        computeInterestCost_def strict_eq_def Let_def)
  have "newton (objectiveFunction cyclingRateInput) (Fin (99 / 100)) default_epsilon
          default_maxIterations = Inl MaxIterationsReached"
    using cycling_example [of default_maxIterations] by (rule solver_cap)
  then show "\<not> converged (computeEffectiveAnnualRate (allInRateInput cyclingLoan))"
    by (simp add: a solver_converged_iff)
qed

theorem insurance_rate_witness:
  "\<not> converged (computeEffectiveAnnualRate (allInRateInput failingLoan))
   \<and> effectiveInsuranceAnnualRate (computeLoanOutput failingLoan) = NaN
   \<and> allInRateInput cyclingLoan
       = \<lparr> ri_months = 2, ri_principal = Fin 0, ri_initialFees = Fin 69103,
           ri_totalCost = Fin 89103 \<rparr>
   \<and> withoutInsuranceRateInput cyclingLoan
       = \<lparr> ri_months = 2, ri_principal = Fin 0, ri_initialFees = Fin 69103,
           ri_totalCost = Fin 69103 \<rparr>
   \<and> \<not> converged (computeEffectiveAnnualRate (allInRateInput cyclingLoan))
   \<and> effectiveInsuranceAnnualRate (computeLoanOutput cyclingLoan) = NaN
   \<and> rate (computeEffectiveAnnualRate (allInRateInput insuredLoan))
       = Some (Fin ((101 / 100) ^ 12 - 1))
   \<and> rate (computeEffectiveAnnualRate (withoutInsuranceRateInput insuredLoan)) = Some (Fin 0)
   \<and> effectiveInsuranceAnnualRate (computeLoanOutput insuredLoan) = Fin ((101 / 100) ^ 12 - 1)"
proof -
  have "effectiveInsuranceAnnualRate (computeLoanOutput failingLoan) = NaN"
    using insurance_rate [of failingLoan] failing_loan_values by blast
  moreover have "effectiveInsuranceAnnualRate (computeLoanOutput cyclingLoan) = NaN"
    using insurance_rate [of cyclingLoan] cycling_loan_values(2) by blast
  moreover have "ic_totalInterests (computeInterestCost cyclingLoan) = Fin 0"
    by (simp add: computeInterestCost_def cyclingLoan_def strict_eq_def Let_def)
  then have "totalInterests (computeLoanOutput cyclingLoan) = Fin 0"
    using insurance_rate [of cyclingLoan] by simp
  then have "allInRateInput cyclingLoan
       = \<lparr> ri_months = 2, ri_principal = Fin 0, ri_initialFees = Fin 69103,
           ri_totalCost = Fin 89103 \<rparr>"
    "withoutInsuranceRateInput cyclingLoan
       = \<lparr> ri_months = 2, ri_principal = Fin 0, ri_initialFees = Fin 69103,
           ri_totalCost = Fin 69103 \<rparr>"
    using insurance_rate [of cyclingLoan] by (simp_all add: cyclingLoan_def)
  moreover have "effectiveInsuranceAnnualRate (computeLoanOutput insuredLoan)
      = nsub (Fin ((101 / 100) ^ 12 - 1)) (Fin 0)"
    using insurance_rate [of insuredLoan] insured_loan_values by blast
  ultimately show ?thesis
    using failing_loan_values insured_loan_values cycling_loan_values(2) by (simp add: nsub_Fin)
qed

subsection \<open>The totals\<close>

lemma output_fields:
  "totalInterests (computeLoanOutput inputs) = ic_totalInterests (computeInterestCost inputs)"
  "totalCost (computeLoanOutput inputs)
     = nadd (nadd (initialFees inputs) (insuranceCost inputs))
            (ic_totalInterests (computeInterestCost inputs))"
  "totalCostWithoutInsurance (computeLoanOutput inputs)
     = nadd (initialFees inputs) (ic_totalInterests (computeInterestCost inputs))"
  "fullInstallment (computeLoanOutput inputs)
     = ndiv (nadd (nadd (principal inputs) (ic_totalInterests (computeInterestCost inputs)))
                  (insuranceCost inputs))
            (of_count (months inputs))"
  by (simp_all add: computeLoanOutput_def Let_def)

lemma cost_order:
  assumes "0 \<le> s" and "t \<noteq> NaN"
  shows "nle (nadd (Fin f) t) (nadd (nadd (Fin f) (Fin s)) t)"
  using assms by (cases t) simp_all

text \<open>
  Claim C9. \<^verbatim>\<open>computeLoanOutput\<close> returns the total cost
  \<open>initialFees + insuranceCost + totalInterests\<close>, the total cost without insurance
  \<open>initialFees + totalInterests\<close> and the full installment
  \<open>(principal + totalInterests + insuranceCost) / months\<close>, as \<open>output_fields\<close> states, and
  with an insurance that is at least zero the total cost without insurance is to be at most
  the total cost. In binary64 it is not on every output: with nothing borrowed over 12
  months at the annual rate \<open>3 * 2\<^sup>-\<^sup>5\<^sup>8\<close>, no fees and an insurance of 1, the compound factor
  rounds to 1, the installment is zero divided by zero, the total of the interests and the
  two totals of the cost are NaN, and NaN is not at most NaN.
\<close>

theorem tiny_rate_breaks_cost_order:
  "principal nothingBorrowedTinyRateLoan = Fin 0
   \<and> annualRate nothingBorrowedTinyRateLoan = Fin (3 / 2 ^ 58)
   \<and> months nothingBorrowedTinyRateLoan = 12
   \<and> initialFees nothingBorrowedTinyRateLoan = Fin 0
   \<and> insuranceCost nothingBorrowedTinyRateLoan = Fin 1 \<and> (0::real) \<le> 1
   \<and> ic_totalInterests (computeInterestCost_binary64 nothingBorrowedTinyRateLoan) = NaN
   \<and> totalCostWithoutInsurance_binary64 nothingBorrowedTinyRateLoan = NaN
   \<and> totalCost_binary64 nothingBorrowedTinyRateLoan = NaN
   \<and> \<not> nle (totalCostWithoutInsurance_binary64 nothingBorrowedTinyRateLoan)
            (totalCost_binary64 nothingBorrowedTinyRateLoan)"
  by (simp add: totalCost_binary64_def totalCostWithoutInsurance_binary64_def
      nothing_borrowed_cost) (simp add: nothingBorrowedTinyRateLoan_def rounded_def)

subsection \<open>Without insurance\<close>

text \<open>
  Claim C10, amended. When the cost of the insurance is zero the two solves get the same
  argument and the total cost is the total cost without insurance; whenever the solve
  returns a finite rate, \<^verbatim>\<open>effectiveInsuranceAnnualRate\<close> is zero. (A solve that converges to
  the discount factor zero returns an infinite rate, and the difference of that rate with
  itself is NaN, as the counterexample shows.)
\<close>

theorem no_insurance:
  assumes "insuranceCost inputs = Fin 0"
  shows "allInRateInput inputs = withoutInsuranceRateInput inputs
    \<and> totalCost (computeLoanOutput inputs) = totalCostWithoutInsurance (computeLoanOutput inputs)
    \<and> (\<forall>r. rate (computeEffectiveAnnualRate (allInRateInput inputs)) = Some (Fin r)
          \<longrightarrow> effectiveInsuranceAnnualRate (computeLoanOutput inputs) = Fin 0)"
proof -
  have same: "allInRateInput inputs = withoutInsuranceRateInput inputs"
    using assms by (simp add: allInRateInput_def withoutInsuranceRateInput_def nadd_zero_right)
  have "totalCost (computeLoanOutput inputs) = totalCostWithoutInsurance (computeLoanOutput inputs)"
    using assms by (simp add: computeLoanOutput_def Let_def nadd_zero_right)
  moreover have "effectiveInsuranceAnnualRate (computeLoanOutput inputs) = Fin 0"
    if "rate (computeEffectiveAnnualRate (allInRateInput inputs)) = Some (Fin r)" for r
    using that same by (simp add: computeLoanOutput_def Let_def nullish_def nsub_Fin)
  ultimately show ?thesis
    using same by blast
qed

theorem no_insurance_witness:
  "insuranceCost plainLoan = Fin 0
   \<and> rate (computeEffectiveAnnualRate (allInRateInput plainLoan)) = Some (Fin 0)
   \<and> effectiveInsuranceAnnualRate (computeLoanOutput plainLoan) = Fin 0
   \<and> totalCost (computeLoanOutput plainLoan) = totalCostWithoutInsurance (computeLoanOutput plainLoan)"
proof -
  have a: "insuranceCost plainLoan = Fin 0"
    by (simp add: plainLoan_def)
  have b: "rate (computeEffectiveAnnualRate (allInRateInput plainLoan)) = Some (Fin 0)"
    by code_simp
  show ?thesis
    using no_insurance [OF a] a b by blast
qed

text \<open>
  Claim C10 as it is written fails for fees as high as the principal: at the rate zero, over
  one month, without insurance, both solves converge, to the discount factor zero; the
  effective annual rate is then infinite and \<^verbatim>\<open>effectiveInsuranceAnnualRate\<close> is NaN, not zero.
\<close>

theorem no_insurance_counterexample:
  "insuranceCost feesEqualPrincipalLoan = Fin 0
   \<and> converged (computeEffectiveAnnualRate (allInRateInput feesEqualPrincipalLoan))
   \<and> converged (computeEffectiveAnnualRate (withoutInsuranceRateInput feesEqualPrincipalLoan))
   \<and> effectiveAnnualRate (computeLoanOutput feesEqualPrincipalLoan) = PInf
   \<and> effectiveInsuranceAnnualRate (computeLoanOutput feesEqualPrincipalLoan) = NaN
   \<and> effectiveInsuranceAnnualRate (computeLoanOutput feesEqualPrincipalLoan) \<noteq> Fin 0"
  by code_simp

section \<open>Failure modes of the amortization\<close>

subsection \<open>In exact arithmetic\<close>

text \<open>
  Computed in exact arithmetic, the amortization has no failure mode: for a finite principal
  that is at least zero, a finite annual rate that is at least zero and at least one month,
  the installment and the total of the interests are finite, the count of months by which
  the principal is divided is not zero, and for a rate other than zero \<open>f - 1\<close> is not zero,
  also for one month.
\<close>

theorem amortization_finite:
  assumes "principal inputs = Fin p" and "0 \<le> p" and "annualRate inputs = Fin a" and "0 \<le> a"
    and "1 \<le> months inputs"
  shows "(\<exists>m t. ic_monthlyInstallmentWithoutInsurance (computeInterestCost inputs) = Fin m
             \<and> ic_totalInterests (computeInterestCost inputs) = Fin t)
       \<and> real (months inputs) \<noteq> 0
       \<and> (a \<noteq> 0 \<longrightarrow> (1 + a / 12) ^ months inputs - 1 \<noteq> 0)"
proof -
  obtain m t where "computeInterestCost inputs =
      \<lparr> ic_monthlyInstallmentWithoutInsurance = Fin m, ic_totalInterests = Fin t \<rparr>"
    using interest_cost_finite [OF assms] by blast
  then have "\<exists>m t. ic_monthlyInstallmentWithoutInsurance (computeInterestCost inputs) = Fin m
      \<and> ic_totalInterests (computeInterestCost inputs) = Fin t"
    by simp
  moreover have "real (months inputs) \<noteq> 0"
    using assms(5) by simp
  moreover have "(1 + a / 12) ^ months inputs - 1 \<noteq> 0" if "a \<noteq> 0"
  proof -
    have "0 < a / 12" using that assms(4) by simp
    then have "1 < (1 + a / 12) ^ months inputs"
      using assms(5) by (rule compound_gt_one)
    then show ?thesis by simp
  qed
  ultimately show ?thesis by blast
qed

lemma interest_loan_cost:
  "computeInterestCost interestLoan =
     \<lparr> ic_monthlyInstallmentWithoutInsurance = Fin 101, ic_totalInterests = Fin 1 \<rparr>"
  by code_simp

theorem amortization_finite_witness:
  "principal interestLoan = Fin 100 \<and> (0::real) \<le> 100
   \<and> annualRate interestLoan = Fin (12 / 100) \<and> (0::real) \<le> 12 / 100
   \<and> months interestLoan = 1
   \<and> ic_monthlyInstallmentWithoutInsurance (computeInterestCost interestLoan) = Fin 101
   \<and> ic_totalInterests (computeInterestCost interestLoan) = Fin 1
   \<and> (1 + (12 / 100) / 12) ^ months interestLoan - 1 \<noteq> (0::real)"
proof -
  have a: "principal interestLoan = Fin 100" "annualRate interestLoan = Fin (12 / 100)"
    "months interestLoan = 1"
    by (simp_all add: interestLoan_def)
  have b: "(0::real) \<le> 100" "(0::real) \<le> 12 / 100" "1 \<le> months interestLoan"
    by (simp_all add: interestLoan_def)
  have "(1 + (12 / 100) / 12) ^ months interestLoan - 1 \<noteq> (0::real)"
    using amortization_finite [OF a(1) b(1) a(2) b(2) b(3)] by simp
  then show ?thesis
    using a b interest_loan_cost by simp
qed

subsection \<open>With rounding\<close>

text \<open>
  Claim C8. The amortization is to return finite results for every finite principal and
  annual rate that are at least zero and at least one month, with no division by zero. In
  binary64 it does not: at the annual rate \<open>3 * 2\<^sup>-\<^sup>5\<^sup>8\<close>, with a principal of 1000 over 12
  months, all binary64 numbers, the monthly rate \<open>2\<^sup>-\<^sup>6\<^sup>0\<close> is not zero, so the test of the
  rate zero does not apply; \<open>1 + 2\<^sup>-\<^sup>6\<^sup>0\<close> rounds to 1, the compound factor is 1, the divisor
  \<open>f - 1\<close> is zero, and the installment and the total of the interests are infinite.
\<close>

theorem tiny_rate_not_finite:
  "principal tinyRateLoan = Fin 1000 \<and> annualRate tinyRateLoan = Fin (3 / 2 ^ 58)
   \<and> (0::real) \<le> 3 / 2 ^ 58 \<and> months tinyRateLoan = 12
   \<and> rounded (principal tinyRateLoan) = principal tinyRateLoan
   \<and> rounded (annualRate tinyRateLoan) = annualRate tinyRateLoan
   \<and> computeInterestCost_binary64 tinyRateLoan
       = \<lparr> ic_monthlyInstallmentWithoutInsurance = PInf, ic_totalInterests = PInf \<rparr>"
proof -
  have rate: "rounded (ndiv (Fin (3 / 2 ^ 58)) (Fin 12)) = Fin (1 / 2 ^ 60)"
    using binary64_tiny_rate by (simp add: rounded_def)
  have factor: "rounded (npow (rounded (nadd (Fin 1) (Fin (1 / 2 ^ 60)))) 12) = Fin 1"
    using binary64_rate_absorbed binary64_one by (simp add: rounded_def npow_Fin)
  have numerator: "rounded (nmul (rounded (nmul (Fin 1000) (Fin (1 / 2 ^ 60)))) (Fin 1))
      = Fin (1000 / 2 ^ 60)"
    using binary64_tiny_product by (simp add: rounded_def)
  have denominator: "rounded (nsub (Fin 1) (Fin 1)) = Fin 0"
    using binary64_zero by (simp add: rounded_def nsub_Fin)
  have quotient: "rounded (ndiv (Fin (1000 / 2 ^ 60)) (Fin 0)) = PInf"
    by (simp add: rounded_def signed_inf_def)
  have interests: "rounded (nsub (rounded (nmul PInf (of_count 12))) (Fin 1000)) = PInf"
    by (simp add: rounded_def signed_inf_def of_count_def nsub_def)
  have "computeInterestCost_binary64 tinyRateLoan
      = \<lparr> ic_monthlyInstallmentWithoutInsurance = PInf, ic_totalInterests = PInf \<rparr>"
    unfolding computeInterestCost_binary64_def tinyRateLoan_def
    by (simp only: LoanInput.simps Let_def rate factor numerator denominator quotient interests
        strict_eq_def) simp
  moreover have "rounded (Fin 1000) = Fin 1000" "rounded (Fin (3 / 2 ^ 58)) = Fin (3 / 2 ^ 58)"
    using binary64_principal binary64_annual_rate by (simp_all add: rounded_def)
  ultimately show ?thesis
    by (simp add: tinyRateLoan_def)
qed

end
